theory Spec2Isabelle
  imports Main
begin

section \<open>JavaScript values and errors\<close>

text \<open>
  The values the helpers handle: parsed JSON, extended with \<open>undefined\<close>, which property
  access and out-of-range indexing produce. Numbers are opaque to the code (they are only
  passed on), so an \<open>int\<close> stands for them.
\<close>

datatype jsval =
    JUndefined
  | JNull
  | JBool bool
  | JNum int
  | JStr string
  | JArr "jsval list"
  | JObj "(string \<times> jsval) list"

text \<open>A thrown value: \<open>err.code\<close> is \<open>undefined\<close> (\<open>None\<close>) when the error has no code.\<close>

datatype js_error = JsError (err_code: "int option") (err_message: string)

text \<open>A document of the remote store: a JSON object, its fields in order.\<close>

type_synonym document = "(string \<times> jsval) list"

text \<open>What \<open>getExistingUser\<close>, \<open>storeUserData\<close> and \<open>getUser\<close> resolve to.\<close>

datatype ret = RUndefined | RNull | RDoc document

fun truthy :: "ret \<Rightarrow> bool" where
  "truthy RUndefined = False"
| "truthy RNull = False"
| "truthy (RDoc d) = True"

section \<open>The external collaborators\<close>

record account_user =
  user_id :: string
  user_email :: string
  user_name :: string

record session =
  providerAccessToken :: "string option"

record listing =
  documents :: "document list"
  total :: int

text \<open>The data object handed to \<open>createDocument\<close> (lines 75--81).\<close>

record payload =
  accountId :: string
  email :: string
  name :: string
  imageUrl :: jsval
  joinedAt :: string

text \<open>The object \<open>{ users, total }\<close> of \<open>getAllUsers\<close>; its second field is \<open>total\<close>
  in the source.\<close>

record page =
  users :: "document list"
  page_total :: int

datatype query =
    QEqual string string
  | QSelect "string list"
  | QLimit int
  | QOffset int

datatype provider = Google

datatype body = BadJson js_error | JsonBody jsval

datatype fetch_result = FetchRejected js_error | FetchResponse bool body

text \<open>
  The SDK client, the configuration constants, \<open>fetch\<close>, the clock and \<open>window\<close> are
  not part of the repository's code: they are parameters. Each field gives the outcome of
  one external call (\<open>Inl\<close>: the call throws or its promise rejects).
\<close>

record env =
  account_get :: "js_error + account_user"
  account_getSession :: "string \<Rightarrow> js_error + session"
  account_createOAuth2Session :: "provider \<Rightarrow> string \<Rightarrow> string \<Rightarrow> js_error + unit"
  account_deleteSession :: "string \<Rightarrow> js_error + unit"
  http_fetch :: "string \<Rightarrow> (string \<times> string) list \<Rightarrow> fetch_result"
  listDocuments :: "string \<Rightarrow> string \<Rightarrow> query list \<Rightarrow> js_error + listing"
  createDocument :: "string \<Rightarrow> string \<Rightarrow> string \<Rightarrow> payload \<Rightarrow> js_error + document"
  databaseId :: string
  userCollectionId :: string
  id_unique :: string
  now_iso :: string
  window_origin :: string

text \<open>The calls a function makes, in the order it makes them.\<close>

datatype event =
    AccountGet
  | AccountGetSession string
  | Fetch string "(string \<times> string) list"
  | ListDocuments string string "query list"
  | CreateDocument string string string payload
  | CreateOAuth2Session provider string string
  | DeleteSession string
  | Redirect string
  | ConsoleError string

section \<open>Sequencing, throwing and catching\<close>

text \<open>
  An \<open>async\<close> function is a computation that resolves (\<open>Inr\<close>) or rejects (\<open>Inl\<close>) and
  leaves the trace of the calls it made.
\<close>

type_synonym 'a io = "(js_error + 'a) \<times> event list"

definition io_return :: "'a \<Rightarrow> 'a io" where
  "io_return x = (Inr x, [])"

definition io_throw :: "js_error \<Rightarrow> 'a io" where
  "io_throw e = (Inl e, [])"

definition io_call :: "event \<Rightarrow> js_error + 'a \<Rightarrow> 'a io" where
  "io_call ev outcome = (outcome, [ev])"

definition io_bind :: "'a io \<Rightarrow> ('a \<Rightarrow> 'b io) \<Rightarrow> 'b io" where
  "io_bind m f =
     (case m of
        (Inl e, t) \<Rightarrow> (Inl e, t)
      | (Inr x, t) \<Rightarrow> (case f x of (r, t') \<Rightarrow> (r, t @ t')))"

definition io_catch :: "'a io \<Rightarrow> (js_error \<Rightarrow> 'a io) \<Rightarrow> 'a io" where
  "io_catch m h =
     (case m of
        (Inl e, t) \<Rightarrow> (case h e of (r, t') \<Rightarrow> (r, t @ t'))
      | (Inr x, t) \<Rightarrow> (Inr x, t))"

definition console_error :: "string \<Rightarrow> unit io" where
  "console_error label = io_call (ConsoleError label) (Inr ())"

definition redirect :: "string \<Rightarrow> unit io" where
  "redirect path = io_call (Redirect path) (Inr ())"

section \<open>Property access\<close>

fun nullish :: "jsval \<Rightarrow> bool" where
  "nullish JUndefined = True"
| "nullish JNull = True"
| "nullish v = False"

text \<open>\<open>v.k\<close> for a name \<open>k\<close> that no built-in prototype defines (\<open>photos\<close>, \<open>url\<close>), on a
  value that is not nullish.\<close>

fun get_named :: "jsval \<Rightarrow> string \<Rightarrow> jsval" where
  "get_named (JObj fs) k = (case map_of fs k of None \<Rightarrow> JUndefined | Some v \<Rightarrow> v)"
| "get_named v k = JUndefined"

text \<open>\<open>v[0]\<close> on a value that is not nullish.\<close>

fun get_index0 :: "jsval \<Rightarrow> jsval" where
  "get_index0 (JArr xs) = (case xs of [] \<Rightarrow> JUndefined | x # _ \<Rightarrow> x)"
| "get_index0 (JStr s) = (case s of [] \<Rightarrow> JUndefined | c # _ \<Rightarrow> JStr [c])"
| "get_index0 (JObj fs) = (case map_of fs ''0'' of None \<Rightarrow> JUndefined | Some v \<Rightarrow> v)"
| "get_index0 v = JUndefined"

text \<open>\<open>data.photos?.[0]?.url ?? null\<close> (line 35): \<open>data.photos\<close> itself throws a
  TypeError on a nullish \<open>data\<close>.\<close>

definition photo_url :: "jsval \<Rightarrow> js_error + jsval" where
  "photo_url data =
     (if nullish data then Inl (JsError None ''TypeError'')
      else let photos = get_named data ''photos'' in
        if nullish photos then Inr JNull
        else let p0 = get_index0 photos in
          if nullish p0 then Inr JNull
          else let url = get_named p0 ''url'' in
            if nullish url then Inr JNull else Inr url)"

text \<open>\<open>documents[0]\<close>: \<open>undefined\<close> on an empty array.\<close>

definition first_document :: "document list \<Rightarrow> ret" where
  "first_document ds = (case ds of [] \<Rightarrow> RUndefined | d # _ \<Rightarrow> RDoc d)"

section \<open>The helpers\<close>

definition getExistingUser :: "env \<Rightarrow> string \<Rightarrow> ret io" where
  "getExistingUser env ident =
     io_catch
       (io_bind
          (io_call
             (ListDocuments (databaseId env) (userCollectionId env) [QEqual ''accountId'' ident])
             (listDocuments env (databaseId env) (userCollectionId env)
                [QEqual ''accountId'' ident]))
          (\<lambda>l. io_return (if total l > 0 then first_document (documents l) else RNull)))
       (\<lambda>error. io_bind (console_error ''Error fetching user:'') (\<lambda>_. io_return RNull))"

definition people_url :: string where
  "people_url = ''https://people.googleapis.com/v1/people/me?personFields=photos''"

definition res_json :: "body \<Rightarrow> jsval io" where
  "res_json b = (case b of BadJson e \<Rightarrow> io_throw e | JsonBody v \<Rightarrow> io_return v)"

definition getGooglePicture :: "env \<Rightarrow> string \<Rightarrow> jsval io" where
  "getGooglePicture env accessToken =
     io_catch
       (io_bind
          (io_call
             (Fetch people_url [(''Authorization'', ''Bearer '' @ accessToken)])
             (case http_fetch env people_url [(''Authorization'', ''Bearer '' @ accessToken)] of
                FetchRejected e \<Rightarrow> Inl e
              | FetchResponse ok b \<Rightarrow> Inr (ok, b)))
          (\<lambda>(ok, b).
             if \<not> ok then io_throw (JsError None ''Failed to fetch Google profile picture'')
             else io_bind (res_json b) (\<lambda>data. (photo_url data, []))))
       (\<lambda>err. io_bind (console_error ''Error fetching Google picture:'') (\<lambda>_. io_return JNull))"

text \<open>Lines 58--64 of \<open>storeUserData\<close>: the session, its provider token, and the constant
  \<open>profilePicture\<close>.\<close>

definition profilePicture :: "env \<Rightarrow> jsval io" where
  "profilePicture env =
     io_bind
       (io_catch
          (io_bind (io_call (AccountGetSession ''current'') (account_getSession env ''current''))
             (\<lambda>s. io_return (Some s)))
          (\<lambda>_. io_return None))
       (\<lambda>session.
          let token = (case session of None \<Rightarrow> None | Some s \<Rightarrow> providerAccessToken s) in
          case token of
            None \<Rightarrow> io_return JNull
          | Some t \<Rightarrow> if t \<noteq> [] then getGooglePicture env t else io_return JNull)"

text \<open>Lines 47--56 and 125--134: \<open>account.get()\<close> with its handler. \<open>Inl r\<close> is the early
  \<open>return r\<close> of the enclosing function, \<open>Inr user\<close> lets it go on.\<close>

definition current_user :: "env \<Rightarrow> ret \<Rightarrow> (ret + account_user) io" where
  "current_user env early =
     io_catch
       (io_bind (io_call AccountGet (account_get env)) (\<lambda>u. io_return (Inr u)))
       (\<lambda>err.
          if err_code err = Some 401
          then io_bind (redirect ''/sign-in'') (\<lambda>_. io_return (Inl early))
          else io_throw err)"

definition storeUserData :: "env \<Rightarrow> ret io" where
  "storeUserData env =
     io_catch
       (io_bind (current_user env RUndefined)
          (\<lambda>r. case r of
             Inl early \<Rightarrow> io_return early
           | Inr user \<Rightarrow>
               io_bind (profilePicture env)
                 (\<lambda>picture.
                    io_bind (getExistingUser env (user_id user))
                      (\<lambda>existingUser.
                         if truthy existingUser then io_return existingUser
                         else
                           let data = \<lparr>accountId = user_id user, email = user_email user,
                                       name = user_name user, imageUrl = picture,
                                       joinedAt = now_iso env\<rparr> in
                           io_bind
                             (io_call
                                (CreateDocument (databaseId env) (userCollectionId env)
                                   (id_unique env) data)
                                (createDocument env (databaseId env) (userCollectionId env)
                                   (id_unique env) data))
                             (\<lambda>createdUser. io_return (RDoc createdUser))))))
       (\<lambda>err. io_bind (console_error ''Error storing user data:'') (\<lambda>_. io_return RNull))"

definition loginWithGoogle :: "env \<Rightarrow> unit io" where
  "loginWithGoogle env =
     io_catch
       (let origin = window_origin env in
        io_call (CreateOAuth2Session Google (origin @ ''/'') (origin @ ''/404''))
          (account_createOAuth2Session env Google (origin @ ''/'') (origin @ ''/404'')))
       (\<lambda>err. console_error ''Error creating OAuth2 session:'')"

definition logoutUser :: "env \<Rightarrow> unit io" where
  "logoutUser env =
     io_catch
       (io_call (DeleteSession ''current'') (account_deleteSession env ''current''))
       (\<lambda>err. console_error ''Error during logout:'')"

definition user_fields :: "string list" where
  "user_fields = [''name'', ''email'', ''imageUrl'', ''joinedAt'', ''accountId'']"

definition getUser :: "env \<Rightarrow> ret io" where
  "getUser env =
     io_catch
       (io_bind (current_user env RNull)
          (\<lambda>r. case r of
             Inl early \<Rightarrow> io_return early
           | Inr user \<Rightarrow>
               io_bind
                 (io_call
                    (ListDocuments (databaseId env) (userCollectionId env)
                       [QEqual ''accountId'' (user_id user), QSelect user_fields])
                    (listDocuments env (databaseId env) (userCollectionId env)
                       [QEqual ''accountId'' (user_id user), QSelect user_fields]))
                 (\<lambda>l. io_return
                    (case documents l of [] \<Rightarrow> RNull | d # _ \<Rightarrow> RDoc d))))
       (\<lambda>err. io_bind (console_error ''Error fetching user:'') (\<lambda>_. io_return RNull))"

definition getAllUsers :: "env \<Rightarrow> int \<Rightarrow> int \<Rightarrow> page io" where
  "getAllUsers env limit offset =
     io_catch
       (io_bind
          (io_call
             (ListDocuments (databaseId env) (userCollectionId env)
                [QLimit limit, QOffset offset])
             (listDocuments env (databaseId env) (userCollectionId env)
                [QLimit limit, QOffset offset]))
          (\<lambda>l. io_return \<lparr>users = documents l, page_total = total l\<rparr>))
       (\<lambda>err. io_bind (console_error ''Error fetching users:'')
          (\<lambda>_. io_return \<lparr>users = [], page_total = 0\<rparr>))"

section \<open>Reading a trace\<close>

fun is_create :: "event \<Rightarrow> bool" where
  "is_create (CreateDocument db coll ident data) = True"
| "is_create ev = False"

fun is_fetch :: "event \<Rightarrow> bool" where
  "is_fetch (Fetch url hdrs) = True"
| "is_fetch ev = False"

fun is_lookup :: "event \<Rightarrow> bool" where
  "is_lookup (ListDocuments db coll qs) = True"
| "is_lookup ev = False"

fun is_oauth :: "event \<Rightarrow> bool" where
  "is_oauth (CreateOAuth2Session p s f) = True"
| "is_oauth ev = False"


text \<open>The picture fetch fails: the request is rejected (network), the status is not a
  success, or the body does not parse.\<close>

fun fetch_fails :: "fetch_result \<Rightarrow> bool" where
  "fetch_fails (FetchRejected e) = True"
| "fetch_fails (FetchResponse ok (BadJson e)) = True"
| "fetch_fails (FetchResponse ok (JsonBody v)) = (\<not> ok)"

text \<open>The current session carries a provider token that is not empty (line 62).\<close>

definition has_provider_token :: "env \<Rightarrow> bool" where
  "has_provider_token env =
     (case account_getSession env ''current'' of
        Inl e \<Rightarrow> False
      | Inr s \<Rightarrow> (case providerAccessToken s of None \<Rightarrow> False | Some t \<Rightarrow> t \<noteq> []))"

section \<open>Example sessions\<close>

definition alice :: account_user where
  "alice = \<lparr>user_id = ''acc-1'', user_email = ''alice@example.com'', user_name = ''Alice''\<rparr>"

definition alice_doc :: document where
  "alice_doc =
     [(''name'', JStr ''Alice''), (''email'', JStr ''alice@example.com''),
      (''imageUrl'', JNull), (''joinedAt'', JStr ''2025-01-01T00:00:00.000Z''),
      (''accountId'', JStr ''acc-1'')]"

text \<open>A store that keeps what it is given.\<close>

definition stored :: "string \<Rightarrow> payload \<Rightarrow> document" where
  "stored ident p =
     [(''$id'', JStr ident), (''accountId'', JStr (accountId p)), (''email'', JStr (email p)),
      (''name'', JStr (name p)), (''imageUrl'', imageUrl p), (''joinedAt'', JStr (joinedAt p))]"

text \<open>Alice is signed in through the provider, her picture loads, and her profile is
  stored already.\<close>

definition env_returning :: env where
  "env_returning =
     \<lparr>account_get = Inr alice,
      account_getSession = (\<lambda>sid. Inr \<lparr>providerAccessToken = Some ''tok''\<rparr>),
      account_createOAuth2Session = (\<lambda>p s f. Inr ()),
      account_deleteSession = (\<lambda>sid. Inr ()),
      http_fetch = (\<lambda>url hdrs. FetchResponse True
         (JsonBody (JObj [(''photos'', JArr [JObj [(''url'', JStr ''https://img.example/a.png'')]])]))),
      listDocuments = (\<lambda>db coll qs. Inr \<lparr>documents = [alice_doc], total = 1\<rparr>),
      createDocument = (\<lambda>db coll ident p. Inr (stored ident p)),
      databaseId = ''db'',
      userCollectionId = ''users'',
      id_unique = ''unique()'',
      now_iso = ''2025-06-01T12:00:00.000Z'',
      window_origin = ''http://localhost:5173''\<rparr>"

text \<open>Her first sign-in: the store has no documents, and the picture endpoint answers
  with a status that is not a success.\<close>

definition env_first_login :: env where
  "env_first_login =
     env_returning
       \<lparr>http_fetch := (\<lambda>url hdrs. FetchResponse False (JsonBody JNull)),
        listDocuments := (\<lambda>db coll qs. Inr \<lparr>documents = [], total = 0\<rparr>)\<rparr>"

text \<open>Listing fails on the server, creating still works.\<close>

definition env_listing_down :: env where
  "env_listing_down =
     env_returning
       \<lparr>listDocuments := (\<lambda>db coll qs. Inl (JsError (Some 500) ''Server Error''))\<rparr>"

text \<open>Nobody is signed in.\<close>

definition env_signed_out :: env where
  "env_signed_out =
     env_returning \<lparr>account_get := Inl (JsError (Some 401) ''Unauthorized'')\<rparr>"

text \<open>Her first sign-in with a picture that loads.\<close>

definition env_first_login_with_picture :: env where
  "env_first_login_with_picture =
     env_returning
       \<lparr>listDocuments := (\<lambda>db coll qs. Inr \<lparr>documents = [], total = 0\<rparr>)\<rparr>"

text \<open>The store refuses every call.\<close>

definition env_store_down :: env where
  "env_store_down =
     env_returning
       \<lparr>listDocuments := (\<lambda>db coll qs. Inl (JsError (Some 500) ''Server Error'')),
        createDocument := (\<lambda>db coll ident p. Inl (JsError (Some 500) ''Server Error''))\<rparr>"

text \<open>Her profile is stored, and the store shows it to \<open>getUser\<close>, but the store fails
  the lookup that filters by \<open>accountId\<close> alone.\<close>

definition env_lookup_failing :: env where
  "env_lookup_failing =
     env_returning
       \<lparr>listDocuments := (\<lambda>db coll qs.
          if qs = [QEqual ''accountId'' ''acc-1'']
          then Inl (JsError (Some 500) ''Server Error'')
          else Inr \<lparr>documents = [alice_doc], total = 1\<rparr>)\<rparr>"

text \<open>Her profile as a store sends it that adds the document's own id to the selected
  fields.\<close>

definition alice_doc_with_id :: document where
  "alice_doc_with_id = (''$id'', JStr ''doc-1'') # alice_doc"

definition env_returning_with_id :: env where
  "env_returning_with_id =
     env_returning
       \<lparr>listDocuments := (\<lambda>db coll qs. Inr \<lparr>documents = [alice_doc_with_id], total = 1\<rparr>)\<rparr>"

section \<open>The helpers, one call at a time\<close>

lemmas io_defs = io_return_def io_throw_def io_call_def io_bind_def io_catch_def
  console_error_def redirect_def

lemmas example_defs = alice_def alice_doc_def stored_def env_returning_def
  env_first_login_def env_listing_down_def env_signed_out_def
  env_first_login_with_picture_def env_store_down_def env_lookup_failing_def
  alice_doc_with_id_def env_returning_with_id_def

lemmas model_defs = storeUserData_def getUser_def getAllUsers_def loginWithGoogle_def
  current_user_def profilePicture_def getGooglePicture_def getExistingUser_def
  res_json_def photo_url_def first_document_def people_url_def user_fields_def

lemma getExistingUser_answered:
  assumes "listDocuments env (databaseId env) (userCollectionId env)
             [QEqual ''accountId'' ident] = Inr l"
  shows "getExistingUser env ident =
    (Inr (if total l > 0 then first_document (documents l) else RNull),
     [ListDocuments (databaseId env) (userCollectionId env) [QEqual ''accountId'' ident]])"
  using assms by (simp add: getExistingUser_def io_defs)

lemma getExistingUser_failed:
  assumes "listDocuments env (databaseId env) (userCollectionId env)
             [QEqual ''accountId'' ident] = Inl e"
  shows "getExistingUser env ident =
    (Inr RNull,
     [ListDocuments (databaseId env) (userCollectionId env) [QEqual ''accountId'' ident],
      ConsoleError ''Error fetching user:''])"
  using assms by (simp add: getExistingUser_def io_defs)

lemma getExistingUser_shape:
  "\<exists>r rest. getExistingUser env ident =
     (Inr r, ListDocuments (databaseId env) (userCollectionId env)
               [QEqual ''accountId'' ident] # rest)
     \<and> rest \<in> {[], [ConsoleError ''Error fetching user:'']}"
  by (cases "listDocuments env (databaseId env) (userCollectionId env)
               [QEqual ''accountId'' ident]")
     (simp_all add: getExistingUser_failed getExistingUser_answered)

lemma getGooglePicture_shape:
  "\<exists>p rest. getGooglePicture env t =
     (Inr p, Fetch people_url [(''Authorization'', ''Bearer '' @ t)] # rest)
     \<and> rest \<in> {[], [ConsoleError ''Error fetching Google picture:'']}"
  by (auto simp add: getGooglePicture_def io_defs res_json_def photo_url_def Let_def
      split: fetch_result.splits body.splits sum.splits)

lemma getGooglePicture_fails:
  assumes "fetch_fails (http_fetch env people_url [(''Authorization'', ''Bearer '' @ t)])"
  shows "getGooglePicture env t =
     (Inr JNull, [Fetch people_url [(''Authorization'', ''Bearer '' @ t)],
                  ConsoleError ''Error fetching Google picture:''])"
  using assms
  by (auto simp add: getGooglePicture_def io_defs res_json_def
      split: fetch_result.splits body.splits sum.splits elim: fetch_fails.elims)

lemma profilePicture_shape:
  "\<exists>p rest. profilePicture env = (Inr p, AccountGetSession ''current'' # rest)
     \<and> \<not> list_ex is_lookup rest \<and> \<not> list_ex is_create rest
     \<and> list_ex is_fetch rest = has_provider_token env"
proof (cases "account_getSession env ''current''")
  case (Inl e)
  then show ?thesis by (simp add: profilePicture_def has_provider_token_def io_defs)
next
  case (Inr s)
  show ?thesis
  proof (cases "providerAccessToken s")
    case None
    with Inr show ?thesis by (simp add: profilePicture_def has_provider_token_def io_defs)
  next
    case (Some t)
    show ?thesis
    proof (cases "t = []")
      case True
      with Inr Some show ?thesis
        by (simp add: profilePicture_def has_provider_token_def io_defs)
    next
      case False
      from getGooglePicture_shape [of env t] obtain p rest where
        g: "getGooglePicture env t =
              (Inr p, Fetch people_url [(''Authorization'', ''Bearer '' @ t)] # rest)"
        and r: "rest \<in> {[], [ConsoleError ''Error fetching Google picture:'']}"
        by blast
      from r have "\<not> list_ex is_lookup rest \<and> \<not> list_ex is_create rest" by auto
      with Inr Some False g show ?thesis
        by (simp add: profilePicture_def has_provider_token_def io_defs)
    qed
  qed
qed

lemma profilePicture_fetch_fails:
  assumes "account_getSession env ''current'' = Inr s"
    and "providerAccessToken s = Some t" and "t \<noteq> []"
    and "fetch_fails (http_fetch env people_url [(''Authorization'', ''Bearer '' @ t)])"
  shows "profilePicture env =
     (Inr JNull, [AccountGetSession ''current'',
                  Fetch people_url [(''Authorization'', ''Bearer '' @ t)],
                  ConsoleError ''Error fetching Google picture:''])"
  using assms by (simp add: profilePicture_def io_defs getGooglePicture_fails)

lemma storeUserData_authenticated:
  assumes "account_get env = Inr u"
    and "profilePicture env = (Inr pic, tp)"
    and "getExistingUser env (user_id u) = (Inr ex, tq)"
  shows "storeUserData env =
    (if truthy ex then (Inr ex, AccountGet # tp @ tq)
     else
       (case createDocument env (databaseId env) (userCollectionId env) (id_unique env)
               \<lparr>accountId = user_id u, email = user_email u, name = user_name u,
                imageUrl = pic, joinedAt = now_iso env\<rparr> of
          Inl e \<Rightarrow> (Inr RNull,
             AccountGet # tp @ tq @
               [CreateDocument (databaseId env) (userCollectionId env) (id_unique env)
                  \<lparr>accountId = user_id u, email = user_email u, name = user_name u,
                   imageUrl = pic, joinedAt = now_iso env\<rparr>,
                ConsoleError ''Error storing user data:''])
        | Inr d \<Rightarrow> (Inr (RDoc d),
             AccountGet # tp @ tq @
               [CreateDocument (databaseId env) (userCollectionId env) (id_unique env)
                  \<lparr>accountId = user_id u, email = user_email u, name = user_name u,
                   imageUrl = pic, joinedAt = now_iso env\<rparr>])))"
  using assms
  by (simp add: storeUserData_def current_user_def io_defs Let_def split: sum.splits)

lemma storeUserData_unauthenticated:
  assumes "account_get env = Inl e"
  shows "storeUserData env =
    (if err_code e = Some 401 then (Inr RUndefined, [AccountGet, Redirect ''/sign-in''])
     else (Inr RNull, [AccountGet, ConsoleError ''Error storing user data:'']))"
  using assms by (simp add: storeUserData_def current_user_def io_defs)

lemma getUser_unauthenticated:
  assumes "account_get env = Inl e"
  shows "getUser env =
    (if err_code e = Some 401 then (Inr RNull, [AccountGet, Redirect ''/sign-in''])
     else (Inr RNull, [AccountGet, ConsoleError ''Error fetching user:'']))"
  using assms by (simp add: getUser_def current_user_def io_defs)

lemma getUser_authenticated:
  assumes "account_get env = Inr u"
  shows "getUser env =
    (case listDocuments env (databaseId env) (userCollectionId env)
            [QEqual ''accountId'' (user_id u), QSelect user_fields] of
       Inl e \<Rightarrow> (Inr RNull,
          [AccountGet,
           ListDocuments (databaseId env) (userCollectionId env)
             [QEqual ''accountId'' (user_id u), QSelect user_fields],
           ConsoleError ''Error fetching user:''])
     | Inr l \<Rightarrow> (Inr (case documents l of [] \<Rightarrow> RNull | d # _ \<Rightarrow> RDoc d),
          [AccountGet,
           ListDocuments (databaseId env) (userCollectionId env)
             [QEqual ''accountId'' (user_id u), QSelect user_fields]]))"
  using assms by (simp add: getUser_def current_user_def io_defs split: sum.splits)

text \<open>No helper rejects: each ends in a handler that returns.\<close>

lemma storeUserData_resolves: "\<exists>r. fst (storeUserData env) = Inr r"
proof (cases "account_get env")
  case (Inl e)
  then show ?thesis by (simp add: storeUserData_unauthenticated)
next
  case (Inr u)
  obtain p tp where p: "profilePicture env = (Inr p, tp)"
    using profilePicture_shape [of env] by blast
  obtain ex tq where q: "getExistingUser env (user_id u) = (Inr ex, tq)"
    using getExistingUser_shape [of env "user_id u"] by blast
  show ?thesis
    by (simp add: storeUserData_authenticated [OF Inr p q] split: sum.splits)
qed

lemma getUser_resolves: "\<exists>r. fst (getUser env) = Inr r"
  by (cases "account_get env")
     (simp_all add: getUser_unauthenticated getUser_authenticated split: sum.splits)

section \<open>The reconciliation flow\<close>

text \<open>
  Claim C1, as stated, fails: a stored profile alone does not keep \<open>storeUserData\<close> from
  creating. In the session below the profile is stored (\<open>getUser\<close> resolves to it), the
  lookup call of \<open>getExistingUser\<close> fails, its handler answers null, and \<open>storeUserData\<close>
  creates a second profile for the account and resolves to that one.
\<close>

theorem stored_profile_lookup_fails_counterexample:
  "fst (getUser env_lookup_failing) = Inr (RDoc alice_doc)
   \<and> listDocuments env_lookup_failing ''db'' ''users'' [QEqual ''accountId'' ''acc-1'']
       = Inl (JsError (Some 500) ''Server Error'')
   \<and> filter is_create (snd (storeUserData env_lookup_failing)) =
       [CreateDocument ''db'' ''users'' ''unique()''
          \<lparr>accountId = ''acc-1'', email = ''alice@example.com'', name = ''Alice'',
           imageUrl = JStr ''https://img.example/a.png'',
           joinedAt = ''2025-06-01T12:00:00.000Z''\<rparr>]
   \<and> fst (storeUserData env_lookup_failing) =
       Inr (RDoc [(''$id'', JStr ''unique()''), (''accountId'', JStr ''acc-1''),
                  (''email'', JStr ''alice@example.com''), (''name'', JStr ''Alice''),
                  (''imageUrl'', JStr ''https://img.example/a.png''),
                  (''joinedAt'', JStr ''2025-06-01T12:00:00.000Z'')])"
  by (simp add: model_defs io_defs example_defs Let_def)

text \<open>
  Claim C1, amended. When the session's identity resolves and the lookup by \<open>accountId\<close>
  succeeds and finds a stored profile (the store answers with a positive total and a first
  document), \<open>storeUserData\<close> resolves to that very document and makes no
  \<open>createDocument\<close> call: no second profile is created for the account. This holds
  whatever the session and the picture fetch do.
\<close>

theorem existing_profile_returned_without_create:
  assumes "account_get env = Inr u"
    and "listDocuments env (databaseId env) (userCollectionId env)
           [QEqual ''accountId'' (user_id u)] = Inr l"
    and "total l > 0"
    and "documents l = d # ds"
  shows "fst (storeUserData env) = Inr (RDoc d)
     \<and> \<not> list_ex is_create (snd (storeUserData env))"
proof -
  obtain p rest where p: "profilePicture env = (Inr p, AccountGetSession ''current'' # rest)"
    and rest: "\<not> list_ex is_create rest"
    using profilePicture_shape [of env] by blast
  have q: "getExistingUser env (user_id u) =
      (Inr (RDoc d),
       [ListDocuments (databaseId env) (userCollectionId env)
          [QEqual ''accountId'' (user_id u)]])"
    using assms(3,4) by (simp add: getExistingUser_answered [OF assms(2)] first_document_def)
  show ?thesis
    using rest by (simp add: storeUserData_authenticated [OF assms(1) p q])
qed

theorem existing_profile_returned_without_create_witness:
  "account_get env_returning = Inr alice
   \<and> listDocuments env_returning (databaseId env_returning) (userCollectionId env_returning)
        [QEqual ''accountId'' (user_id alice)] = Inr \<lparr>documents = [alice_doc], total = 1\<rparr>
   \<and> fst (storeUserData env_returning) = Inr (RDoc alice_doc)
   \<and> \<not> list_ex is_create (snd (storeUserData env_returning))"
proof -
  have a: "account_get env_returning = Inr alice"
    by (simp add: env_returning_def)
  have b: "listDocuments env_returning (databaseId env_returning)
      (userCollectionId env_returning) [QEqual ''accountId'' (user_id alice)]
      = Inr \<lparr>documents = [alice_doc], total = 1\<rparr>"
    by (simp add: env_returning_def)
  show ?thesis
    using existing_profile_returned_without_create
      [OF a b, of alice_doc "[]"] a b by simp
qed

text \<open>
  Claim C2. For a signed-in identity without a stored profile, whose session carries a
  provider token and whose picture fetch fails (rejected request, status that is not a
  success, or unparsable body), \<open>storeUserData\<close> does not reject: it makes exactly one
  \<open>createDocument\<close> call, whose data has \<open>imageUrl = null\<close>, and resolves to the
  created document (to null when the store refuses the create).
\<close>

theorem failing_picture_fetch_gives_null_image:
  assumes "account_get env = Inr u"
    and "account_getSession env ''current'' = Inr s"
    and "providerAccessToken s = Some t" and "t \<noteq> []"
    and "fetch_fails (http_fetch env people_url [(''Authorization'', ''Bearer '' @ t)])"
    and "fst (getExistingUser env (user_id u)) = Inr ex" and "\<not> truthy ex"
  shows "filter is_create (snd (storeUserData env)) =
       [CreateDocument (databaseId env) (userCollectionId env) (id_unique env)
          \<lparr>accountId = user_id u, email = user_email u, name = user_name u,
           imageUrl = JNull, joinedAt = now_iso env\<rparr>]
     \<and> fst (storeUserData env) =
       (case createDocument env (databaseId env) (userCollectionId env) (id_unique env)
               \<lparr>accountId = user_id u, email = user_email u, name = user_name u,
                imageUrl = JNull, joinedAt = now_iso env\<rparr> of
          Inl e \<Rightarrow> Inr RNull
        | Inr d \<Rightarrow> Inr (RDoc d))"
proof -
  note p = profilePicture_fetch_fails [OF assms(2-5)]
  obtain r rest where q: "getExistingUser env (user_id u) =
      (Inr r, ListDocuments (databaseId env) (userCollectionId env)
                [QEqual ''accountId'' (user_id u)] # rest)"
    and rest: "rest \<in> {[], [ConsoleError ''Error fetching user:'']}"
    using getExistingUser_shape [of env "user_id u"] by blast
  from q assms(6) have "r = ex" by simp
  with assms(7) have nt: "\<not> truthy r" by simp
  from rest have nc: "filter is_create rest = []" by auto
  show ?thesis
    using nt nc
    by (simp add: storeUserData_authenticated [OF assms(1) p q] split: sum.splits)
qed

theorem failing_picture_fetch_gives_null_image_witness:
  "account_get env_first_login = Inr alice
   \<and> account_getSession env_first_login ''current'' = Inr \<lparr>providerAccessToken = Some ''tok''\<rparr>
   \<and> fetch_fails (http_fetch env_first_login people_url
        [(''Authorization'', ''Bearer '' @ ''tok'')])
   \<and> fst (getExistingUser env_first_login (user_id alice)) = Inr RNull
   \<and> filter is_create (snd (storeUserData env_first_login)) =
       [CreateDocument ''db'' ''users'' ''unique()''
          \<lparr>accountId = ''acc-1'', email = ''alice@example.com'', name = ''Alice'',
           imageUrl = JNull, joinedAt = ''2025-06-01T12:00:00.000Z''\<rparr>]
   \<and> fst (storeUserData env_first_login) =
       Inr (RDoc (stored ''unique()''
          \<lparr>accountId = ''acc-1'', email = ''alice@example.com'', name = ''Alice'',
           imageUrl = JNull, joinedAt = ''2025-06-01T12:00:00.000Z''\<rparr>))"
proof -
  have a: "account_get env_first_login = Inr alice"
    by (simp add: env_first_login_def env_returning_def)
  have b: "account_getSession env_first_login ''current'' =
      Inr \<lparr>providerAccessToken = Some ''tok''\<rparr>"
    by (simp add: env_first_login_def env_returning_def)
  have c: "providerAccessToken \<lparr>providerAccessToken = Some ''tok''\<rparr> = Some ''tok''"
    by simp
  have d: "''tok'' \<noteq> []" by simp
  have e: "fetch_fails (http_fetch env_first_login people_url
      [(''Authorization'', ''Bearer '' @ ''tok'')])"
    by (simp add: env_first_login_def env_returning_def)
  have f: "fst (getExistingUser env_first_login (user_id alice)) = Inr RNull"
    by (simp add: getExistingUser_def io_defs env_first_login_def env_returning_def)
  have g: "\<not> truthy RNull" by simp
  show ?thesis
    using failing_picture_fetch_gives_null_image [OF a b c d e f g] a b e f
    by (simp add: env_first_login_def env_returning_def alice_def)
qed

text \<open>
  Claim C3, as stated, fails: for a signed-in identity whose profile is stored already and
  whose session carries a provider token, \<open>storeUserData\<close> fetches the picture, and it
  does so before the lookup. The trace of that session shows it.
\<close>

theorem picture_fetched_before_lookup_counterexample:
  "fst (getExistingUser env_returning ''acc-1'') = Inr (RDoc alice_doc)
   \<and> snd (storeUserData env_returning) =
       [AccountGet,
        AccountGetSession ''current'',
        Fetch ''https://people.googleapis.com/v1/people/me?personFields=photos''
          [(''Authorization'', ''Bearer tok'')],
        ListDocuments ''db'' ''users'' [QEqual ''accountId'' ''acc-1'']]"
  by (simp add: model_defs io_defs example_defs Let_def)

text \<open>
  Claim C3, amended. After the identity resolves, \<open>storeUserData\<close> reads the current
  session and fetches the picture exactly when the session carries a non-empty provider
  token; only then comes the single lookup by \<open>accountId\<close>. No lookup or create precedes
  that lookup, no fetch follows it, and a create follows it exactly when the lookup yields
  no profile.
\<close>

theorem picture_fetch_precedes_lookup:
  assumes "account_get env = Inr u"
    and "fst (getExistingUser env (user_id u)) = Inr ex"
  shows "\<exists>pre post.
      snd (storeUserData env) =
        AccountGet # AccountGetSession ''current'' # pre @
        ListDocuments (databaseId env) (userCollectionId env)
          [QEqual ''accountId'' (user_id u)] # post
      \<and> \<not> list_ex is_lookup pre \<and> \<not> list_ex is_create pre
      \<and> list_ex is_fetch pre = has_provider_token env
      \<and> \<not> list_ex is_fetch post \<and> \<not> list_ex is_lookup post
      \<and> list_ex is_create post = (\<not> truthy ex)"
proof -
  obtain p pre where p: "profilePicture env = (Inr p, AccountGetSession ''current'' # pre)"
    and pre: "\<not> list_ex is_lookup pre" "\<not> list_ex is_create pre"
      "list_ex is_fetch pre = has_provider_token env"
    using profilePicture_shape [of env] by blast
  obtain r rest where q: "getExistingUser env (user_id u) =
      (Inr r, ListDocuments (databaseId env) (userCollectionId env)
                [QEqual ''accountId'' (user_id u)] # rest)"
    and rest: "rest \<in> {[], [ConsoleError ''Error fetching user:'']}"
    using getExistingUser_shape [of env "user_id u"] by blast
  from q assms(2) have r: "r = ex" by simp
  from rest have quiet: "\<not> list_ex is_fetch rest" "\<not> list_ex is_lookup rest"
    "\<not> list_ex is_create rest" by auto
  note s = storeUserData_authenticated [OF assms(1) p q]
  show ?thesis
  proof (cases "truthy ex")
    case True
    with r s have "snd (storeUserData env) =
        AccountGet # AccountGetSession ''current'' # pre @
        ListDocuments (databaseId env) (userCollectionId env)
          [QEqual ''accountId'' (user_id u)] # rest" by simp
    with pre quiet True show ?thesis by blast
  next
    case False
    let ?c = "CreateDocument (databaseId env) (userCollectionId env) (id_unique env)
                \<lparr>accountId = user_id u, email = user_email u, name = user_name u,
                 imageUrl = p, joinedAt = now_iso env\<rparr>"
    from False r s obtain tc where
      t: "snd (storeUserData env) =
        AccountGet # AccountGetSession ''current'' # pre @
        ListDocuments (databaseId env) (userCollectionId env)
          [QEqual ''accountId'' (user_id u)] # (rest @ ?c # tc)"
      and tc: "tc \<in> {[], [ConsoleError ''Error storing user data:'']}"
      by (auto split: sum.splits)
    from tc quiet have "\<not> list_ex is_fetch (rest @ ?c # tc)"
      "\<not> list_ex is_lookup (rest @ ?c # tc)" "list_ex is_create (rest @ ?c # tc)"
      by auto
    with t pre False show ?thesis by blast
  qed
qed

theorem picture_fetch_precedes_lookup_witness:
  "account_get env_returning = Inr alice
   \<and> fst (getExistingUser env_returning (user_id alice)) = Inr (RDoc alice_doc)
   \<and> (\<exists>pre post.
      snd (storeUserData env_returning) =
        AccountGet # AccountGetSession ''current'' # pre @
        ListDocuments (databaseId env_returning) (userCollectionId env_returning)
          [QEqual ''accountId'' (user_id alice)] # post
      \<and> \<not> list_ex is_lookup pre \<and> \<not> list_ex is_create pre
      \<and> list_ex is_fetch pre = has_provider_token env_returning
      \<and> \<not> list_ex is_fetch post \<and> \<not> list_ex is_lookup post
      \<and> list_ex is_create post = (\<not> truthy (RDoc alice_doc)))"
proof -
  have a: "account_get env_returning = Inr alice"
    by (simp add: env_returning_def)
  have b: "fst (getExistingUser env_returning (user_id alice)) = Inr (RDoc alice_doc)"
    by (simp add: getExistingUser_def first_document_def io_defs env_returning_def)
  from picture_fetch_precedes_lookup [OF a b] a b show ?thesis by blast
qed

text \<open>
  Claim C4. When the identity resolves, the lookup yields no profile and the store accepts
  the create, \<open>storeUserData\<close> makes exactly one \<open>createDocument\<close> call, whose data is the
  identity's \<open>accountId\<close>, \<open>email\<close> and \<open>name\<close>, the resolved picture as \<open>imageUrl\<close>
  (null when the session has no provider token) and the current timestamp as \<open>joinedAt\<close>;
  it resolves to the document the store returns for that call.
\<close>

theorem created_profile_fields:
  assumes "account_get env = Inr u"
    and "fst (profilePicture env) = Inr pic"
    and "fst (getExistingUser env (user_id u)) = Inr ex" and "\<not> truthy ex"
    and "createDocument env (databaseId env) (userCollectionId env) (id_unique env)
           \<lparr>accountId = user_id u, email = user_email u, name = user_name u,
            imageUrl = pic, joinedAt = now_iso env\<rparr> = Inr d"
  shows "filter is_create (snd (storeUserData env)) =
       [CreateDocument (databaseId env) (userCollectionId env) (id_unique env)
          \<lparr>accountId = user_id u, email = user_email u, name = user_name u,
           imageUrl = pic, joinedAt = now_iso env\<rparr>]
     \<and> fst (storeUserData env) = Inr (RDoc d)
     \<and> (has_provider_token env \<or> pic = JNull)"
proof -
  obtain p pre where p: "profilePicture env = (Inr p, AccountGetSession ''current'' # pre)"
    and pre: "\<not> list_ex is_create pre"
    using profilePicture_shape [of env] by blast
  from p assms(2) have pic: "p = pic" by simp
  obtain r rest where q: "getExistingUser env (user_id u) =
      (Inr r, ListDocuments (databaseId env) (userCollectionId env)
                [QEqual ''accountId'' (user_id u)] # rest)"
    and rest: "rest \<in> {[], [ConsoleError ''Error fetching user:'']}"
    using getExistingUser_shape [of env "user_id u"] by blast
  from q assms(3,4) have nt: "\<not> truthy r" by simp
  from rest have nc: "filter is_create rest = []" by auto
  from pre have npre: "filter is_create pre = []"
    by (simp add: list_ex_iff filter_empty_conv)
  have tok: "has_provider_token env \<or> pic = JNull"
    using assms(2)
    by (auto simp add: profilePicture_def has_provider_token_def io_defs
        split: sum.splits option.splits)
  show ?thesis
    using nt nc npre pic assms(5) tok
    by (simp add: storeUserData_authenticated [OF assms(1) p q])
qed

theorem created_profile_fields_witness:
  "account_get env_first_login_with_picture = Inr alice
   \<and> fst (profilePicture env_first_login_with_picture) = Inr (JStr ''https://img.example/a.png'')
   \<and> fst (getExistingUser env_first_login_with_picture (user_id alice)) = Inr RNull
   \<and> filter is_create (snd (storeUserData env_first_login_with_picture)) =
       [CreateDocument ''db'' ''users'' ''unique()''
          \<lparr>accountId = ''acc-1'', email = ''alice@example.com'', name = ''Alice'',
           imageUrl = JStr ''https://img.example/a.png'',
           joinedAt = ''2025-06-01T12:00:00.000Z''\<rparr>]
   \<and> fst (storeUserData env_first_login_with_picture) =
       Inr (RDoc [(''$id'', JStr ''unique()''), (''accountId'', JStr ''acc-1''),
                  (''email'', JStr ''alice@example.com''), (''name'', JStr ''Alice''),
                  (''imageUrl'', JStr ''https://img.example/a.png''),
                  (''joinedAt'', JStr ''2025-06-01T12:00:00.000Z'')])"
proof -
  let ?env = env_first_login_with_picture
  let ?data = "\<lparr>accountId = user_id alice, email = user_email alice, name = user_name alice,
      imageUrl = JStr ''https://img.example/a.png'', joinedAt = now_iso ?env\<rparr>"
  have a: "account_get ?env = Inr alice"
    by (simp add: example_defs)
  have b: "fst (profilePicture ?env) = Inr (JStr ''https://img.example/a.png'')"
    by (simp add: model_defs io_defs example_defs Let_def)
  have c: "fst (getExistingUser ?env (user_id alice)) = Inr RNull"
    by (simp add: getExistingUser_def io_defs example_defs)
  have d: "\<not> truthy RNull" by simp
  have e: "createDocument ?env (databaseId ?env) (userCollectionId ?env) (id_unique ?env) ?data
      = Inr (stored (id_unique ?env) ?data)"
    by (simp add: example_defs)
  show ?thesis
    using created_profile_fields [OF a b c d e] a b c
    by (simp add: example_defs)
qed

text \<open>
  Claim C5, as stated, fails for an error of the lookup: \<open>getExistingUser\<close> swallows it,
  \<open>storeUserData\<close> goes on to create, and resolves to the created document, not to null.
\<close>

theorem lookup_error_then_create_counterexample:
  "listDocuments env_listing_down ''db'' ''users'' [QEqual ''accountId'' ''acc-1'']
     = Inl (JsError (Some 500) ''Server Error'')
   \<and> fst (storeUserData env_listing_down) =
       Inr (RDoc [(''$id'', JStr ''unique()''), (''accountId'', JStr ''acc-1''),
                  (''email'', JStr ''alice@example.com''), (''name'', JStr ''Alice''),
                  (''imageUrl'', JStr ''https://img.example/a.png''),
                  (''joinedAt'', JStr ''2025-06-01T12:00:00.000Z'')])"
  by (simp add: model_defs io_defs example_defs Let_def)

text \<open>
  Claim C5, amended. For a resolved identity, \<open>storeUserData\<close> never rejects. An error of
  the lookup is taken as "no profile": the flow goes on to the create and resolves to the
  created document, or to null when the create fails too. An error of the create, after a
  lookup that yielded no profile, makes it resolve to null.
\<close>

theorem lookup_and_create_errors_caught:
  assumes "account_get env = Inr u"
    and "fst (profilePicture env) = Inr pic"
  shows "(\<exists>r. fst (storeUserData env) = Inr r)
     \<and> (listDocuments env (databaseId env) (userCollectionId env)
           [QEqual ''accountId'' (user_id u)] = Inl e \<longrightarrow>
         fst (storeUserData env) =
           (case createDocument env (databaseId env) (userCollectionId env) (id_unique env)
                   \<lparr>accountId = user_id u, email = user_email u, name = user_name u,
                    imageUrl = pic, joinedAt = now_iso env\<rparr> of
              Inl e' \<Rightarrow> Inr RNull
            | Inr d \<Rightarrow> Inr (RDoc d)))
     \<and> (fst (getExistingUser env (user_id u)) = Inr ex \<and> \<not> truthy ex
         \<and> createDocument env (databaseId env) (userCollectionId env) (id_unique env)
              \<lparr>accountId = user_id u, email = user_email u, name = user_name u,
               imageUrl = pic, joinedAt = now_iso env\<rparr> = Inl e' \<longrightarrow>
         fst (storeUserData env) = Inr RNull)"
proof -
  obtain tp where p: "profilePicture env = (Inr pic, tp)"
    using assms(2) by (cases "profilePicture env") simp
  obtain r tq where q: "getExistingUser env (user_id u) = (Inr r, tq)"
    using getExistingUser_shape [of env "user_id u"] by blast
  note s = storeUserData_authenticated [OF assms(1) p q]
  have one: "\<exists>r. fst (storeUserData env) = Inr r"
    by (rule storeUserData_resolves)
  have two: "fst (storeUserData env) =
           (case createDocument env (databaseId env) (userCollectionId env) (id_unique env)
                   \<lparr>accountId = user_id u, email = user_email u, name = user_name u,
                    imageUrl = pic, joinedAt = now_iso env\<rparr> of
              Inl e' \<Rightarrow> Inr RNull
            | Inr d \<Rightarrow> Inr (RDoc d))"
    if "listDocuments env (databaseId env) (userCollectionId env)
           [QEqual ''accountId'' (user_id u)] = Inl e"
  proof -
    from getExistingUser_failed [OF that] q have "r = RNull" by simp
    with s show ?thesis by (simp split: sum.splits)
  qed
  have three: "fst (storeUserData env) = Inr RNull"
    if "fst (getExistingUser env (user_id u)) = Inr ex" "\<not> truthy ex"
      "createDocument env (databaseId env) (userCollectionId env) (id_unique env)
              \<lparr>accountId = user_id u, email = user_email u, name = user_name u,
               imageUrl = pic, joinedAt = now_iso env\<rparr> = Inl e'"
  proof -
    from that(1,2) q have "\<not> truthy r" by simp
    with s that(3) show ?thesis by simp
  qed
  from one two three show ?thesis by blast
qed

theorem lookup_and_create_errors_caught_witness:
  "account_get env_store_down = Inr alice
   \<and> fst (profilePicture env_store_down) = Inr (JStr ''https://img.example/a.png'')
   \<and> listDocuments env_store_down (databaseId env_store_down)
        (userCollectionId env_store_down) [QEqual ''accountId'' (user_id alice)]
       = Inl (JsError (Some 500) ''Server Error'')
   \<and> fst (getExistingUser env_store_down (user_id alice)) = Inr RNull
   \<and> createDocument env_store_down (databaseId env_store_down)
        (userCollectionId env_store_down) (id_unique env_store_down)
        \<lparr>accountId = user_id alice, email = user_email alice, name = user_name alice,
         imageUrl = JStr ''https://img.example/a.png'', joinedAt = now_iso env_store_down\<rparr>
       = Inl (JsError (Some 500) ''Server Error'')
   \<and> fst (storeUserData env_store_down) = Inr RNull"
proof -
  let ?env = env_store_down
  have a: "account_get ?env = Inr alice"
    by (simp add: example_defs)
  have b: "fst (profilePicture ?env) = Inr (JStr ''https://img.example/a.png'')"
    by (simp add: model_defs io_defs example_defs Let_def)
  have c: "listDocuments ?env (databaseId ?env) (userCollectionId ?env)
      [QEqual ''accountId'' (user_id alice)] = Inl (JsError (Some 500) ''Server Error'')"
    by (simp add: example_defs)
  have d: "fst (getExistingUser ?env (user_id alice)) = Inr RNull"
    by (simp add: getExistingUser_def io_defs example_defs)
  have e: "createDocument ?env (databaseId ?env) (userCollectionId ?env) (id_unique ?env)
      \<lparr>accountId = user_id alice, email = user_email alice, name = user_name alice,
       imageUrl = JStr ''https://img.example/a.png'', joinedAt = now_iso ?env\<rparr>
      = Inl (JsError (Some 500) ''Server Error'')"
    by (simp add: example_defs)
  from lookup_and_create_errors_caught [OF a b,
      of "JsError (Some 500) ''Server Error''" RNull "JsError (Some 500) ''Server Error''"]
    a b c d e
  show ?thesis by simp
qed

section \<open>Listing\<close>

text \<open>
  Claim C6. For every limit and offset, when the listing call fails, \<open>getAllUsers\<close> does
  not reject and resolves to \<open>{ users: [], total: 0 }\<close>.
\<close>

theorem getAllUsers_backend_failure:
  assumes "listDocuments env (databaseId env) (userCollectionId env)
             [QLimit limit, QOffset offset] = Inl e"
  shows "fst (getAllUsers env limit offset) = Inr \<lparr>users = [], page_total = 0\<rparr>"
  using assms by (simp add: getAllUsers_def io_defs)

theorem getAllUsers_backend_failure_witness:
  "listDocuments env_listing_down (databaseId env_listing_down)
      (userCollectionId env_listing_down) [QLimit 25, QOffset 50]
     = Inl (JsError (Some 500) ''Server Error'')
   \<and> fst (getAllUsers env_listing_down 25 50) = Inr \<lparr>users = [], page_total = 0\<rparr>"
proof -
  have a: "listDocuments env_listing_down (databaseId env_listing_down)
      (userCollectionId env_listing_down) [QLimit 25, QOffset 50]
     = Inl (JsError (Some 500) ''Server Error'')"
    by (simp add: example_defs)
  from getAllUsers_backend_failure [OF a] a show ?thesis by simp
qed

text \<open>
  Claim C7. When the store answers the listing call for limit 10 and offset 0 with no
  documents and total 0, as a store without profiles does, \<open>getAllUsers(10, 0)\<close> resolves
  to \<open>{ users: [], total: 0 }\<close>.
\<close>

theorem getAllUsers_empty_store:
  assumes "listDocuments env (databaseId env) (userCollectionId env)
             [QLimit 10, QOffset 0] = Inr \<lparr>documents = [], total = 0\<rparr>"
  shows "fst (getAllUsers env 10 0) = Inr \<lparr>users = [], page_total = 0\<rparr>"
  using assms by (simp add: getAllUsers_def io_defs)

theorem getAllUsers_empty_store_witness:
  "listDocuments env_first_login (databaseId env_first_login)
      (userCollectionId env_first_login) [QLimit 10, QOffset 0]
     = Inr \<lparr>documents = [], total = 0\<rparr>
   \<and> fst (getAllUsers env_first_login 10 0) = Inr \<lparr>users = [], page_total = 0\<rparr>"
proof -
  have a: "listDocuments env_first_login (databaseId env_first_login)
      (userCollectionId env_first_login) [QLimit 10, QOffset 0]
     = Inr \<lparr>documents = [], total = 0\<rparr>"
    by (simp add: example_defs)
  from getAllUsers_empty_store [OF a] a show ?thesis by simp
qed

section \<open>Sessions\<close>

text \<open>
  Claim C8. When \<open>account.get()\<close> fails with code 401, neither function rejects, and both
  call \<open>redirect\<close>; \<open>getUser\<close> resolves to null, but \<open>storeUserData\<close> resolves to
  \<open>undefined\<close>: its handler ends in a bare \<open>return\<close>.
\<close>

theorem unauthorized_storeUserData_undefined:
  "account_get env_signed_out = Inl (JsError (Some 401) ''Unauthorized'')
   \<and> storeUserData env_signed_out = (Inr RUndefined, [AccountGet, Redirect ''/sign-in''])
   \<and> getUser env_signed_out = (Inr RNull, [AccountGet, Redirect ''/sign-in''])"
  by (simp add: model_defs io_defs example_defs)

text \<open>
  Claim C9. \<open>loginWithGoogle\<close> makes exactly one \<open>createOAuth2Session\<close> call, for the
  Google provider, with the success URL \<open>origin + "/"\<close> and the failure URL
  \<open>origin + "/404"\<close>, and does not reject. (\<open>window.location.origin\<close> is taken to be
  readable: the function runs in the browser.)
\<close>

theorem loginWithGoogle_fixed_paths:
  "filter is_oauth (snd (loginWithGoogle env)) =
     [CreateOAuth2Session Google (window_origin env @ ''/'') (window_origin env @ ''/404'')]
   \<and> (\<exists>r. fst (loginWithGoogle env) = Inr r)"
  by (cases "account_createOAuth2Session env Google (window_origin env @ ''/'')
               (window_origin env @ ''/404'')")
     (simp_all add: loginWithGoogle_def io_defs Let_def)

text \<open>
  Claim C10, as stated, fails: \<open>getUser\<close> removes no field itself. It resolves to the
  first document of the store's answer as it is, so with a store that adds the document's
  id to the selected fields the record has a sixth field.
\<close>

theorem getUser_extra_field_counterexample:
  "account_get env_returning_with_id = Inr alice
   \<and> fst (getUser env_returning_with_id) = Inr (RDoc alice_doc_with_id)
   \<and> map fst alice_doc_with_id =
       [''$id'', ''name'', ''email'', ''imageUrl'', ''joinedAt'', ''accountId'']"
  by (simp add: model_defs io_defs example_defs)

text \<open>
  Claim C10, amended. For a resolved identity, \<open>getUser\<close> makes one listing call, filtered
  by the identity's \<open>accountId\<close> and selecting exactly \<open>name\<close>, \<open>email\<close>, \<open>imageUrl\<close>,
  \<open>joinedAt\<close> and \<open>accountId\<close>. When that call succeeds it resolves to null if the
  answer has no document, and otherwise to the first document of the answer, unchanged:
  the record has the fields the store sent for that selection.
\<close>

theorem getUser_first_selected_document:
  assumes "account_get env = Inr u"
    and "listDocuments env (databaseId env) (userCollectionId env)
           [QEqual ''accountId'' (user_id u),
            QSelect [''name'', ''email'', ''imageUrl'', ''joinedAt'', ''accountId'']] = Inr l"
  shows "snd (getUser env) =
       [AccountGet,
        ListDocuments (databaseId env) (userCollectionId env)
          [QEqual ''accountId'' (user_id u),
           QSelect [''name'', ''email'', ''imageUrl'', ''joinedAt'', ''accountId'']]]
     \<and> fst (getUser env) = Inr (case documents l of [] \<Rightarrow> RNull | d # ds \<Rightarrow> RDoc d)"
proof -
  from assms(2) have l: "listDocuments env (databaseId env) (userCollectionId env)
      [QEqual ''accountId'' (user_id u), QSelect user_fields] = Inr l"
    by (simp add: user_fields_def)
  have "getUser env =
      (Inr (case documents l of [] \<Rightarrow> RNull | d # _ \<Rightarrow> RDoc d),
       [AccountGet,
        ListDocuments (databaseId env) (userCollectionId env)
          [QEqual ''accountId'' (user_id u), QSelect user_fields]])"
    by (simp add: getUser_authenticated [OF assms(1)] l)
  then show ?thesis by (simp add: user_fields_def)
qed

theorem getUser_first_selected_document_witness:
  "account_get env_returning = Inr alice
   \<and> listDocuments env_returning (databaseId env_returning) (userCollectionId env_returning)
        [QEqual ''accountId'' (user_id alice),
         QSelect [''name'', ''email'', ''imageUrl'', ''joinedAt'', ''accountId'']]
       = Inr \<lparr>documents = [alice_doc], total = 1\<rparr>
   \<and> snd (getUser env_returning) =
       [AccountGet,
        ListDocuments ''db'' ''users''
          [QEqual ''accountId'' ''acc-1'',
           QSelect [''name'', ''email'', ''imageUrl'', ''joinedAt'', ''accountId'']]]
   \<and> fst (getUser env_returning) = Inr (RDoc alice_doc)
   \<and> account_get env_first_login = Inr alice
   \<and> listDocuments env_first_login (databaseId env_first_login)
        (userCollectionId env_first_login)
        [QEqual ''accountId'' (user_id alice),
         QSelect [''name'', ''email'', ''imageUrl'', ''joinedAt'', ''accountId'']]
       = Inr \<lparr>documents = [], total = 0\<rparr>
   \<and> fst (getUser env_first_login) = Inr RNull"
proof -
  have a: "account_get env_returning = Inr alice"
    by (simp add: example_defs)
  have b: "listDocuments env_returning (databaseId env_returning)
      (userCollectionId env_returning)
      [QEqual ''accountId'' (user_id alice),
       QSelect [''name'', ''email'', ''imageUrl'', ''joinedAt'', ''accountId'']]
      = Inr \<lparr>documents = [alice_doc], total = 1\<rparr>"
    by (simp add: example_defs)
  have a': "account_get env_first_login = Inr alice"
    by (simp add: example_defs)
  have b': "listDocuments env_first_login (databaseId env_first_login)
      (userCollectionId env_first_login)
      [QEqual ''accountId'' (user_id alice),
       QSelect [''name'', ''email'', ''imageUrl'', ''joinedAt'', ''accountId'']]
      = Inr \<lparr>documents = [], total = 0\<rparr>"
    by (simp add: example_defs)
  from getUser_first_selected_document [OF a b]
    getUser_first_selected_document [OF a' b'] a b a' b'
  show ?thesis by (simp add: example_defs)
qed

end
